theory Spec2Isabelle
  imports Complex_Main "HOL-Library.Sublist" "HOL-Library.Multiset"
begin

section \<open>Machine integers and decimal text\<close>

text \<open>
  Go's \<open>int\<close>, \<open>int64\<close> and \<open>uint64\<close> are modelled as \<open>int\<close>, with the
  wrap-around written out where a conversion or an operation can leave the range.
\<close>

definition uint64 :: "int \<Rightarrow> int" where
  "uint64 x = x mod 2 ^ 64"

definition int64 :: "int \<Rightarrow> int" where
  "int64 x = (x + 2 ^ 63) mod 2 ^ 64 - 2 ^ 63"

text \<open>Go's \<open>/\<close> and \<open>%\<close> on signed integers truncate towards zero.\<close>

definition quo :: "int \<Rightarrow> int \<Rightarrow> int" where
  "quo a b = sgn a * sgn b * (\<bar>a\<bar> div \<bar>b\<bar>)"

definition rem :: "int \<Rightarrow> int \<Rightarrow> int" where
  "rem a b = sgn a * (\<bar>a\<bar> mod \<bar>b\<bar>)"

definition digit_char :: "nat \<Rightarrow> char" where
  "digit_char n = char_of (48 + n)"

fun digits :: "nat \<Rightarrow> string" where
  "digits n = (if n < 10 then [digit_char n] else digits (n div 10) @ [digit_char (n mod 10)])"

declare digits.simps [simp del]

text \<open>The decimal text of an integer, as \<open>%d\<close> and \<open>strconv.Itoa\<close> print it.\<close>

definition itoa :: "int \<Rightarrow> string" where
  "itoa x = (if x < 0 then CHR ''-'' # digits (nat (- x)) else digits (nat x))"

definition is_digit :: "char \<Rightarrow> bool" where
  "is_digit c = (48 \<le> (of_char c :: nat) \<and> (of_char c :: nat) \<le> 57)"

definition digit_val :: "char \<Rightarrow> int" where
  "digit_val c = int (of_char c) - 48"

section \<open>Package time: instants, parsing and formatting\<close>

text \<open>
  \<open>main.go\<close> embeds \<open>time.Time\<close> in \<open>CustomTime\<close> and calls \<open>time.Parse\<close>,
  \<open>Time.Format\<close>, \<open>Time.Before\<close> and \<open>Time.Sub\<close> of Go's standard library. The
  definitions of this section follow the library's functions of the same names
  (\<open>time/time.go\<close> and \<open>time/format.go\<close>), specialised to the one layout the
  program uses, \<open>2006-01-02T15:04:05\<close>.

  An instant without monotonic clock reading is the pair of the seconds since
  January 1, year 1, 00:00:00 UTC (the library's field \<open>ext\<close>) and the nanoseconds
  within the second (the low bits of \<open>wall\<close>). \<open>time.Parse\<close> with a layout without
  zone returns UTC instants and the zero \<open>Time\<close> prints as UTC, so no location is
  carried.
\<close>

record Time =
  ext :: int
  nsec :: int

definition secondsPerMinute :: int where "secondsPerMinute = 60"
definition secondsPerHour :: int where "secondsPerHour = 60 * secondsPerMinute"
definition secondsPerDay :: int where "secondsPerDay = 24 * secondsPerHour"
definition daysPer400Years :: int where "daysPer400Years = 365 * 400 + 97"
definition daysPer100Years :: int where "daysPer100Years = 365 * 100 + 24"
definition daysPer4Years :: int where "daysPer4Years = 365 * 4 + 1"

definition absoluteZeroYear :: int where
  "absoluteZeroYear = - 292277022399"

definition absoluteToInternal :: int where
  "absoluteToInternal = - 9223371966579724800"

definition internalToAbsolute :: int where
  "internalToAbsolute = - absoluteToInternal"

definition unixToInternal :: int where
  "unixToInternal = 62135596800"

definition internalToUnix :: int where
  "internalToUnix = - unixToInternal"

definition daysBefore :: "int list" where
  "daysBefore = [0, 31, 59, 90, 120, 151, 181, 212, 243, 273, 304, 334, 365]"

definition isLeap :: "int \<Rightarrow> bool" where
  "isLeap year = (rem year 4 = 0 \<and> (rem year 100 \<noteq> 0 \<or> rem year 400 = 0))"

text \<open>\<open>daysIn\<close> is only called with a month between 1 and 12.\<close>

definition daysIn :: "int \<Rightarrow> int \<Rightarrow> int" where
  "daysIn m year =
     (if m = 2 \<and> isLeap year then 29
      else daysBefore ! nat m - daysBefore ! nat (m - 1))"

definition norm :: "int \<Rightarrow> int \<Rightarrow> int \<Rightarrow> int \<times> int" where
  "norm hi lo base =
     (let (hi1, lo1) =
            (if lo < 0 then
               (let n = quo (- lo - 1) base + 1 in (hi - n, lo + n * base))
             else (hi, lo))
      in if lo1 \<ge> base then
           (let n = quo lo1 base in (hi1 + n, lo1 - n * base))
         else (hi1, lo1))"

text \<open>
  \<open>daysSinceEpoch\<close> works on \<open>uint64\<close>; only sums and products follow the
  division of \<open>y\<close>, so reducing its result modulo \<open>2 ^ 64\<close> once is the same as
  wrapping every operation.
\<close>

definition daysSinceEpoch :: "int \<Rightarrow> int" where
  "daysSinceEpoch year =
     (let y = uint64 (year - absoluteZeroYear);
          n400 = y div 400;
          y1 = y - 400 * n400;
          n100 = y1 div 100;
          y2 = y1 - 100 * n100;
          n4 = y2 div 4;
          y3 = y2 - 4 * n4
      in uint64 (daysPer400Years * n400 + daysPer100Years * n100 + daysPer4Years * n4 + 365 * y3))"

text \<open>
  \<open>Date\<close> in UTC. The arguments \<open>Parse\<close> passes have a month between 1 and 12;
  \<open>norm\<close> brings any other month into that range before \<open>daysBefore\<close> is read.
\<close>

definition Date :: "int \<Rightarrow> int \<Rightarrow> int \<Rightarrow> int \<Rightarrow> int \<Rightarrow> int \<Rightarrow> int \<Rightarrow> Time" where
  "Date year month day hour minute second nanos =
     (let (year1, m) = norm year (month - 1) 12;
          month1 = m + 1;
          (second1, nanos1) = norm second nanos 1000000000;
          (minute1, second2) = norm minute second1 60;
          (hour1, minute2) = norm hour minute1 60;
          (day1, hour2) = norm day hour1 24;
          d = daysSinceEpoch year1 + daysBefore ! nat (month1 - 1)
              + (if isLeap year1 \<and> month1 \<ge> 3 then 1 else 0)
              + (day1 - 1);
          absv = uint64 (d * secondsPerDay
                  + (hour2 * secondsPerHour + minute2 * secondsPerMinute + second2));
          unix = int64 (absv + (absoluteToInternal + internalToUnix))
      in \<lparr> ext = int64 (unix + unixToInternal), nsec = nanos1 \<rparr>)"

definition abs_of :: "Time \<Rightarrow> int" where
  "abs_of t = uint64 (int64 (ext t + internalToUnix) + (unixToInternal + internalToAbsolute))"

text \<open>\<open>absDate\<close> with \<open>full = true\<close>: year, month and day of an absolute time.\<close>

definition absDate :: "int \<Rightarrow> int \<times> int \<times> int" where
  "absDate absv =
     (let d = absv div secondsPerDay;
          n400 = d div daysPer400Years;
          y400 = 400 * n400;
          d1 = d - daysPer400Years * n400;
          n100a = d1 div daysPer100Years;
          n100 = n100a - n100a div 4;
          y100 = y400 + 100 * n100;
          d2 = d1 - daysPer100Years * n100;
          n4 = d2 div daysPer4Years;
          y4 = y100 + 4 * n4;
          d3 = d2 - daysPer4Years * n4;
          n1a = d3 div 365;
          n1 = n1a - n1a div 4;
          y = y4 + n1;
          d4 = d3 - 365 * n1;
          year = int64 (y + absoluteZeroYear);
          yday = d4
      in if isLeap year \<and> yday = 31 + 29 - 1 then (year, 2, 29)
         else
           (let day = (if isLeap year \<and> yday > 31 + 29 - 1 then yday - 1 else yday);
                month = day div 31;
                endd = daysBefore ! nat (month + 1);
                (month1, beg) =
                   (if day \<ge> endd then (month + 1, endd) else (month, daysBefore ! nat month))
            in (year, month1 + 1, day - beg + 1)))"

text \<open>\<open>absClock\<close>: hour, minute and second of an absolute time.\<close>

definition absClock :: "int \<Rightarrow> int \<times> int \<times> int" where
  "absClock absv =
     (let s = absv mod secondsPerDay;
          hour = s div secondsPerHour;
          s1 = s - hour * secondsPerHour;
          minute = s1 div secondsPerMinute;
          s2 = s1 - minute * secondsPerMinute
      in (hour, minute, s2))"

text \<open>
  \<open>appendInt\<close>: the sign, then the decimal digits of the magnitude, padded with
  zeros on the left up to \<open>width\<close>.
\<close>

definition appendInt :: "int \<Rightarrow> nat \<Rightarrow> string" where
  "appendInt x width =
     (let ds = digits (nat \<bar>x\<bar>)
      in (if x < 0 then ''-'' else '''') @ replicate (width - length ds) (CHR ''0'') @ ds)"

text \<open>\<open>t.Format("2006-01-02T15:04:05")\<close>.\<close>

definition Format_datetime :: "Time \<Rightarrow> string" where
  "Format_datetime t =
     (let absv = abs_of t;
          (year, month, day) = absDate absv;
          (hour, minute, second) = absClock absv
      in appendInt year 4 @ ''-'' @ appendInt month 2 @ ''-'' @ appendInt day 2 @ ''T''
         @ appendInt hour 2 @ '':'' @ appendInt minute 2 @ '':'' @ appendInt second 2)"

text \<open>\<open>t.Format("15:04")\<close>.\<close>

definition Format_clock :: "Time \<Rightarrow> string" where
  "Format_clock t =
     (let (hour, minute, second) = absClock (abs_of t)
      in appendInt hour 2 @ '':'' @ appendInt minute 2)"

subsection \<open>Parsing\<close>

datatype parse_error =
    BadValue
  | OutOfRange string
  | ExtraText string
  | DayOutOfRange

definition isDigit :: "string \<Rightarrow> nat \<Rightarrow> bool" where
  "isDigit s i = (i < length s \<and> is_digit (s ! i))"

definition getnum :: "string \<Rightarrow> bool \<Rightarrow> parse_error + (int \<times> string)" where
  "getnum s fixed =
     (if \<not> isDigit s 0 then Inl BadValue
      else if \<not> isDigit s 1 then
        (if fixed then Inl BadValue else Inr (digit_val (s ! 0), drop 1 s))
      else Inr (digit_val (s ! 0) * 10 + digit_val (s ! 1), drop 2 s))"

text \<open>
  \<open>leadingInt\<close>: the leading decimal digits of a string as a \<open>uint64\<close>, and the
  rest; \<open>None\<close> is its overflow error.
\<close>

fun leadingInt_from :: "int \<Rightarrow> string \<Rightarrow> (int \<times> string) option" where
  "leadingInt_from x [] = Some (x, [])"
| "leadingInt_from x (c # cs) =
     (if \<not> is_digit c then Some (x, c # cs)
      else if x > 2 ^ 63 div 10 then None
      else (let x1 = uint64 (x * 10 + int (of_char c) - 48)
            in if x1 > 2 ^ 63 then None else leadingInt_from x1 cs))"

definition leadingInt :: "string \<Rightarrow> (int \<times> string) option" where
  "leadingInt s = leadingInt_from 0 s"

text \<open>\<open>atoi\<close> of package time: an optional sign and decimal digits, nothing else.\<close>

definition atoi :: "string \<Rightarrow> int option" where
  "atoi s =
     (let neg = (s \<noteq> [] \<and> hd s = CHR ''-'');
          s1 = (if s \<noteq> [] \<and> (hd s = CHR ''-'' \<or> hd s = CHR ''+'') then tl s else s)
      in case leadingInt s1 of
           None \<Rightarrow> None
         | Some (q, r) \<Rightarrow>
             if r \<noteq> [] then None
             else (let x = int64 q in Some (if neg then int64 (- x) else x)))"

text \<open>\<open>skip\<close> for a one-character prefix other than a space.\<close>

definition skip :: "string \<Rightarrow> char \<Rightarrow> parse_error + string" where
  "skip v c = (if v = [] \<or> hd v \<noteq> c then Inl BadValue else Inr (tl v))"

definition commaOrPeriod :: "char \<Rightarrow> bool" where
  "commaOrPeriod c = (c = CHR ''.'' \<or> c = CHR '','')"

text \<open>
  \<open>parseNanoseconds\<close>: \<open>v\<close> starts with the separator, \<open>nbytes\<close> counts the
  separator and the digits after it.
\<close>

definition parseNanoseconds :: "string \<Rightarrow> nat \<Rightarrow> parse_error + int" where
  "parseNanoseconds v nbytes =
     (if \<not> commaOrPeriod (v ! 0) then Inl BadValue
      else
        (let (v1, n1) = (if nbytes > 10 then (take 10 v, 10) else (v, nbytes))
         in case atoi (drop 1 (take n1 v1)) of
              None \<Rightarrow> Inl BadValue
            | Some ns \<Rightarrow>
                if ns < 0 then Inl (OutOfRange ''fractional second'')
                else Inr (ns * 10 ^ (10 - n1))))"

text \<open>
  The seconds element of the layout: two digits; and, since the layout has no
  fractional seconds, a fraction in the value is read all the same.
\<close>

definition parse_second :: "string \<Rightarrow> parse_error + (int \<times> int \<times> string)" where
  "parse_second v =
     (case getnum v True of
        Inl e \<Rightarrow> Inl e
      | Inr (s, v1) \<Rightarrow>
          if s < 0 \<or> 60 \<le> s then Inl (OutOfRange ''second'')
          else if length v1 \<ge> 2 \<and> commaOrPeriod (v1 ! 0) \<and> isDigit v1 1 then
            (let n = 2 + length (takeWhile is_digit (drop 2 v1))
             in case parseNanoseconds v1 n of
                  Inl e \<Rightarrow> Inl e
                | Inr ns \<Rightarrow> Inr (s, ns, drop n v1))
          else Inr (s, 0, v1))"

definition parse_year :: "string \<Rightarrow> parse_error + (int \<times> string)" where
  "parse_year v =
     (if length v < 4 \<or> \<not> isDigit v 0 then Inl BadValue
      else case atoi (take 4 v) of
             None \<Rightarrow> Inl BadValue
           | Some y \<Rightarrow> Inr (y, drop 4 v))"

definition parse_month :: "string \<Rightarrow> parse_error + (int \<times> string)" where
  "parse_month v =
     (case getnum v True of
        Inl e \<Rightarrow> Inl e
      | Inr (m, v1) \<Rightarrow> if m \<le> 0 \<or> 12 < m then Inl (OutOfRange ''month'') else Inr (m, v1))"

definition parse_day :: "string \<Rightarrow> parse_error + (int \<times> string)" where
  "parse_day v = getnum v True"

definition parse_hour :: "string \<Rightarrow> parse_error + (int \<times> string)" where
  "parse_hour v =
     (case getnum v False of
        Inl e \<Rightarrow> Inl e
      | Inr (h, v1) \<Rightarrow> if h < 0 \<or> 24 \<le> h then Inl (OutOfRange ''hour'') else Inr (h, v1))"

definition parse_minute :: "string \<Rightarrow> parse_error + (int \<times> string)" where
  "parse_minute v =
     (case getnum v True of
        Inl e \<Rightarrow> Inl e
      | Inr (m, v1) \<Rightarrow> if m < 0 \<or> 60 \<le> m then Inl (OutOfRange ''minute'') else Inr (m, v1))"

text \<open>Sequencing of two steps that can fail.\<close>

definition bind :: "'e + 'a \<Rightarrow> ('a \<Rightarrow> 'e + 'b) \<Rightarrow> 'e + 'b" where
  "bind r f = (case r of Inl e \<Rightarrow> Inl e | Inr x \<Rightarrow> f x)"

text \<open>
  \<open>time.Parse("2006-01-02T15:04:05", value)\<close>: the elements of the layout in
  order, each after its literal prefix; nothing may follow the last one; the day
  is checked against the month's length at the end.
\<close>

definition Parse :: "string \<Rightarrow> parse_error + Time" where
  "Parse value =
     bind (parse_year value) (\<lambda>(year, v1).
     bind (skip v1 (CHR ''-'')) (\<lambda>v2.
     bind (parse_month v2) (\<lambda>(month, v3).
     bind (skip v3 (CHR ''-'')) (\<lambda>v4.
     bind (parse_day v4) (\<lambda>(day, v5).
     bind (skip v5 (CHR ''T'')) (\<lambda>v6.
     bind (parse_hour v6) (\<lambda>(hour, v7).
     bind (skip v7 (CHR '':'')) (\<lambda>v8.
     bind (parse_minute v8) (\<lambda>(minute, v9).
     bind (skip v9 (CHR '':'')) (\<lambda>v10.
     bind (parse_second v10) (\<lambda>(second, nanos, v11).
       if v11 \<noteq> [] then Inl (ExtraText v11)
       else if day < 1 \<or> day > daysIn month year then Inl DayOutOfRange
       else Inr (Date year month day hour minute second nanos))))))))))))"

section \<open>The time codec of main.go\<close>

text \<open>
  \<open>CustomTime\<close> embeds a \<open>time.Time\<close> and nothing else.
  \<open>UnmarshalJSON\<close> either panics (the slice expression \<open>s[1 : len(s)-1]\<close> with
  \<open>len(s) < 2\<close> is out of range), returns the error of \<open>time.Parse\<close> and leaves
  its receiver as it was, or stores the parsed instant and returns nil.
\<close>

type_synonym CustomTime = Time

datatype 'a outcome =
    Panic
  | Failed parse_error
  | Done 'a

definition UnmarshalJSON :: "string \<Rightarrow> CustomTime outcome" where
  "UnmarshalJSON b =
     (if length b < 2 then Panic
      else case Parse (take (length b - 1 - 1) (drop 1 b)) of
             Inl err \<Rightarrow> Failed err
           | Inr t \<Rightarrow> Done t)"

text \<open>
  \<open>json.Marshal\<close> of a string, as far as the codec needs it: the encoder copies a
  string of HTML-safe ASCII bytes (every byte from \<open>0x20\<close> to \<open>0x7f\<close> but the five
  below) between two quotes as it is. What it writes for any other string
  (escapes, UTF-8 repair) is taken as the parameter \<open>escape\<close>.
\<close>

definition htmlSafe :: "char \<Rightarrow> bool" where
  "htmlSafe c =
     (32 \<le> (of_char c :: nat) \<and> (of_char c :: nat) < 128
      \<and> c \<noteq> CHR 0x22 \<and> c \<noteq> CHR 0x5C \<and> c \<noteq> CHR ''<'' \<and> c \<noteq> CHR ''>'' \<and> c \<noteq> CHR ''&'')"

definition appendString :: "(string \<Rightarrow> string) \<Rightarrow> string \<Rightarrow> string" where
  "appendString escape s =
     (if list_all htmlSafe s then [CHR 0x22] @ s @ [CHR 0x22] else escape s)"

text \<open>\<open>MarshalJSON\<close>: the error it returns is always nil, so only the bytes are modelled.\<close>

definition MarshalJSON :: "(string \<Rightarrow> string) \<Rightarrow> CustomTime \<Rightarrow> string" where
  "MarshalJSON escape ct = appendString escape (Format_datetime ct)"

section \<open>Departures and the slices that hold them\<close>

record Line =
  ID :: int
  Designation :: string

record Departure =
  Destination :: string
  Direction :: string
  Scheduled :: CustomTime
  Expected :: CustomTime
  Line :: Line

definition zeroTime :: Time where
  "zeroTime = \<lparr> ext = 0, nsec = 0 \<rparr>"

definition zeroDeparture :: Departure where
  "zeroDeparture =
     \<lparr> Destination = '''', Direction = '''', Scheduled = zeroTime, Expected = zeroTime,
       Line = \<lparr> ID = 0, Designation = '''' \<rparr> \<rparr>"

text \<open>
  A Go slice is a view of a backing array: the array, the offset of the slice's
  first element in it, a length and a capacity; or nil. The store holds the
  backing arrays, an array's address being its index in the store, so that what a
  call writes and where is part of its result.
\<close>

type_synonym heap = "Departure list list"

datatype slice =
    NilSlice
  | Slice nat nat nat nat

fun len_of :: "slice \<Rightarrow> nat" where
  "len_of NilSlice = 0"
| "len_of (Slice a off n c) = n"

fun cap_of :: "slice \<Rightarrow> nat" where
  "cap_of NilSlice = 0"
| "cap_of (Slice a off n c) = c"

text \<open>\<open>s[i]\<close>, for \<open>i < len(s)\<close>.\<close>

fun index :: "heap \<Rightarrow> slice \<Rightarrow> nat \<Rightarrow> Departure" where
  "index h NilSlice i = zeroDeparture"
| "index h (Slice a off n c) i = h ! a ! (off + i)"

definition elems :: "heap \<Rightarrow> slice \<Rightarrow> Departure list" where
  "elems h s = map (index h s) [0..<len_of s]"

text \<open>
  A slice of the program is well formed in a store: its array is there and its
  capacity lies within the array.
\<close>

fun wf_slice :: "heap \<Rightarrow> slice \<Rightarrow> bool" where
  "wf_slice h NilSlice = True"
| "wf_slice h (Slice a off n c) = (a < length h \<and> n \<le> c \<and> off + c \<le> length (h ! a))"

text \<open>
  \<open>append(s, x)\<close>. With room left the element is written into the backing array in
  place. Otherwise the runtime allocates a new array, copies the elements and
  appends there; the capacity it picks (\<open>runtime.growslice\<close>: doubling, then size
  classes) is the parameter \<open>grow\<close>, applied to the old capacity and the length
  needed, and is never less than that length.
\<close>

fun append_slice :: "(nat \<Rightarrow> nat \<Rightarrow> nat) \<Rightarrow> heap \<Rightarrow> slice \<Rightarrow> Departure \<Rightarrow> heap \<times> slice" where
  "append_slice grow h NilSlice x =
     (let c = max 1 (grow 0 1)
      in (h @ [x # replicate (c - 1) zeroDeparture], Slice (length h) 0 1 c))"
| "append_slice grow h (Slice a off n c) x =
     (if n < c then (h[a := (h ! a)[off + n := x]], Slice a off (n + 1) c)
      else
        (let c1 = max (n + 1) (grow c (n + 1))
         in (h @ [take n (drop off (h ! a)) @ x # replicate (c1 - (n + 1)) zeroDeparture],
             Slice (length h) 0 (n + 1) c1)))"

section \<open>The filter\<close>

text \<open>
  \<open>strconv.Atoi\<close>: an optional sign, then at least one decimal digit and nothing
  else; the value must fit Go's 64-bit \<open>int\<close>.
\<close>

datatype num_error = ErrSyntax | ErrRange

definition Atoi :: "string \<Rightarrow> num_error + int" where
  "Atoi s =
     (let neg = (s \<noteq> [] \<and> hd s = CHR ''-'');
          body = (if s \<noteq> [] \<and> (hd s = CHR ''-'' \<or> hd s = CHR ''+'') then tl s else s)
      in if body = [] \<or> \<not> list_all is_digit body then Inl ErrSyntax
         else
           (let n = foldl (\<lambda>acc c. acc * 10 + digit_val c) 0 body;
                v = (if neg then - n else n)
            in if v < - (2 ^ 63) \<or> 2 ^ 63 - 1 < v then Inl ErrRange else Inr v))"

text \<open>One round of the loop of \<open>filterDepartures\<close>, on the element at index \<open>i\<close>.\<close>

definition filter_step ::
  "(nat \<Rightarrow> nat \<Rightarrow> nat) \<Rightarrow> slice \<Rightarrow> string \<Rightarrow> string \<Rightarrow> heap \<times> slice \<Rightarrow> nat \<Rightarrow> heap \<times> slice" where
  "filter_step grow departures lineID direction st i =
     (let (h, filtered) = st;
          d = index h departures i
      in if lineID \<noteq> '''' \<and>
            (case Atoi lineID of Inl err \<Rightarrow> True | Inr n \<Rightarrow> ID (Line d) \<noteq> n)
         then (h, filtered)
         else if direction \<noteq> '''' \<and> Direction d \<noteq> direction then (h, filtered)
         else append_slice grow h filtered d)"

text \<open>
  \<open>filterDepartures\<close>: \<open>filtered\<close> starts as the nil slice; the range loop fixes the
  length of \<open>departures\<close> once and visits the indices in order.
\<close>

definition filterDepartures ::
  "(nat \<Rightarrow> nat \<Rightarrow> nat) \<Rightarrow> heap \<Rightarrow> slice \<Rightarrow> string \<Rightarrow> string \<Rightarrow> heap \<times> slice" where
  "filterDepartures grow h departures lineID direction =
     foldl (filter_step grow departures lineID direction) (h, NilSlice) [0..<len_of departures]"

text \<open>
  What the specification says the filter keeps: a record passes when the line
  filter is empty or parses to the record's line identifier, and the direction
  filter is empty or equals the record's direction.
\<close>

definition spec_keeps :: "string \<Rightarrow> string \<Rightarrow> Departure \<Rightarrow> bool" where
  "spec_keeps lineID direction d =
     ((lineID = '''' \<or> (case Atoi lineID of Inl err \<Rightarrow> False | Inr n \<Rightarrow> n = ID (Line d)))
      \<and> (direction = '''' \<or> Direction d = direction))"

text \<open>A slice is fresh for a store when it is nil or its array is not in that store.\<close>

definition fresh_slice :: "heap \<Rightarrow> slice \<Rightarrow> bool" where
  "fresh_slice h0 s = (case s of NilSlice \<Rightarrow> True | Slice a off n c \<Rightarrow> length h0 \<le> a)"

text \<open>
  The invariant of the loop of \<open>filterDepartures\<close>, started in the store \<open>h0\<close>: the
  arrays of \<open>h0\<close> are untouched, \<open>filtered\<close> is well formed, lives outside \<open>h0\<close> and
  holds \<open>acc\<close>.
\<close>

definition filter_inv :: "heap \<Rightarrow> heap \<times> slice \<Rightarrow> Departure list \<Rightarrow> bool" where
  "filter_inv h0 st acc =
     (length h0 \<le> length (fst st) \<and> take (length h0) (fst st) = h0 \<and> wf_slice (fst st) (snd st)
      \<and> fresh_slice h0 (snd st) \<and> elems (fst st) (snd st) = acc)"

text \<open>Records for the examples.\<close>

definition dep :: "string \<Rightarrow> string \<Rightarrow> Time \<Rightarrow> Time \<Rightarrow> int \<Rightarrow> string \<Rightarrow> Departure" where
  "dep dst dir s e i des =
     \<lparr> Destination = dst, Direction = dir, Scheduled = s, Expected = e,
       Line = \<lparr> ID = i, Designation = des \<rparr> \<rparr>"

definition at_sec :: "int \<Rightarrow> Time" where
  "at_sec s = \<lparr> ext = s, nsec = 0 \<rparr>"

definition double_cap :: "nat \<Rightarrow> nat \<Rightarrow> nat" where
  "double_cap c n = 2 * c"

section \<open>Package sort: what \<open>sort.Slice\<close> runs\<close>

text \<open>
  \<open>sort.Slice(x, less)\<close> runs the pattern-defeating quicksort of \<open>sort/zsortfunc.go\<close>
  (Go 1.19 and later) on the indices of the slice: \<open>data.Less(i, j)\<close> compares the
  elements now at \<open>i\<close> and \<open>j\<close>, \<open>data.Swap(i, j)\<close> exchanges them. The list is the
  content of the slice, \<open>lt\<close> the order on elements that \<open>less\<close> reads off. All
  indices are of Go's type \<open>int\<close> and never negative, so they are naturals here;
  where a loop of the source counts down, the function recurses on the index.
\<close>

definition Swap :: "'a list \<Rightarrow> nat \<Rightarrow> nat \<Rightarrow> 'a list" where
  "Swap xs i j = xs[i := xs ! j, j := xs ! i]"

text \<open>
  The inner loop of \<open>insertionSort_func\<close>,
  \<open>for j := i; j > a && data.Less(j, j-1); j-- { data.Swap(j, j-1) }\<close>.
\<close>

fun insert_down :: "('a \<Rightarrow> 'a \<Rightarrow> bool) \<Rightarrow> nat \<Rightarrow> 'a list \<Rightarrow> nat \<Rightarrow> 'a list" where
  "insert_down lt a xs 0 = xs"
| "insert_down lt a xs (Suc j) =
     (if Suc j > a \<and> lt (xs ! Suc j) (xs ! j) then insert_down lt a (Swap xs (Suc j) j) j
      else xs)"

definition insertionSort :: "('a \<Rightarrow> 'a \<Rightarrow> bool) \<Rightarrow> 'a list \<Rightarrow> nat \<Rightarrow> nat \<Rightarrow> 'a list" where
  "insertionSort lt xs a b = foldl (insert_down lt a) xs [a + 1..<b]"

function siftDown :: "('a \<Rightarrow> 'a \<Rightarrow> bool) \<Rightarrow> 'a list \<Rightarrow> nat \<Rightarrow> nat \<Rightarrow> nat \<Rightarrow> 'a list" where
  "siftDown lt xs rt hi first =
     (let child = 2 * rt + 1
      in if child \<ge> hi then xs
         else
           (let child1 =
                  (if child + 1 < hi \<and> lt (xs ! (first + child)) (xs ! (first + child + 1))
                   then child + 1 else child)
            in if \<not> lt (xs ! (first + rt)) (xs ! (first + child1)) then xs
               else siftDown lt (Swap xs (first + rt) (first + child1)) child1 hi first))"
  by pat_completeness auto
termination
  by (relation "measure (\<lambda>(lt, xs, rt, hi, first). hi - rt)") auto

declare siftDown.simps [simp del]

definition heapSort :: "('a \<Rightarrow> 'a \<Rightarrow> bool) \<Rightarrow> 'a list \<Rightarrow> nat \<Rightarrow> nat \<Rightarrow> 'a list" where
  "heapSort lt xs a b =
     (let first = a;
          lo = 0;
          hi = b - a;
          xs1 = foldl (\<lambda>ys i. siftDown lt ys i hi first) xs (rev [0..<(hi - 1) div 2 + 1])
      in foldl (\<lambda>ys i. siftDown lt (Swap ys first (first + i)) lo i first) xs1 (rev [0..<hi]))"

text \<open>
  The two scans of \<open>partition_func\<close>:
  \<open>for i <= j && data.Less(i, a) { i++ }\<close> and
  \<open>for i <= j && !data.Less(j, a) { j-- }\<close>. The scans start above \<open>a\<close>, so
  \<open>1 \<le> i\<close> and the second one has stopped when \<open>j\<close> is \<open>0\<close>.
\<close>

function scan_up :: "('a \<Rightarrow> 'a \<Rightarrow> bool) \<Rightarrow> 'a list \<Rightarrow> nat \<Rightarrow> nat \<Rightarrow> nat \<Rightarrow> nat" where
  "scan_up lt xs a i j = (if i \<le> j \<and> lt (xs ! i) (xs ! a) then scan_up lt xs a (i + 1) j else i)"
  by pat_completeness auto
termination
  by (relation "measure (\<lambda>(lt, xs, a, i, j). j + 1 - i)") auto

declare scan_up.simps [simp del]

fun scan_down :: "('a \<Rightarrow> 'a \<Rightarrow> bool) \<Rightarrow> 'a list \<Rightarrow> nat \<Rightarrow> nat \<Rightarrow> nat \<Rightarrow> nat" where
  "scan_down lt xs a i 0 = 0"
| "scan_down lt xs a i (Suc j) =
     (if i \<le> Suc j \<and> \<not> lt (xs ! Suc j) (xs ! a) then scan_down lt xs a i j else Suc j)"

lemma scan_up_ge: "i \<le> scan_up lt xs a i j"
proof (induction lt xs a i j rule: scan_up.induct)
  case (1 lt xs a i j)
  then show ?case
    by (subst scan_up.simps) (auto simp: Suc_leD)
qed

lemma scan_down_le: "scan_down lt xs a i j \<le> j"
  by (induction j) (auto simp: le_SucI)

text \<open>The main loop of \<open>partition_func\<close>; it returns the list and the final \<open>j\<close>.\<close>

function partition_loop ::
  "('a \<Rightarrow> 'a \<Rightarrow> bool) \<Rightarrow> 'a list \<Rightarrow> nat \<Rightarrow> nat \<Rightarrow> nat \<Rightarrow> 'a list \<times> nat" where
  "partition_loop lt xs a i j =
     (let i1 = scan_up lt xs a i j;
          j1 = scan_down lt xs a i1 j
      in if i1 > j1 then (xs, j1)
         else partition_loop lt (Swap xs i1 j1) a (i1 + 1) (j1 - 1))"
  by pat_completeness auto
termination
proof (relation "measure (\<lambda>(lt, xs, a, i, j). j + 1 - i)", goal_cases)
  case 1
  show ?case by simp
next
  case (2 lt xs a i j i1 j1)
  have "i \<le> i1" "j1 \<le> j"
    using 2 scan_up_ge [of i lt xs a j] scan_down_le [of lt xs a i1 j] by simp_all
  with 2 show ?case by auto
qed

declare partition_loop.simps [simp del]

text \<open>\<open>partition_func\<close>: the list, the new index of the pivot, and \<open>alreadyPartitioned\<close>.\<close>

definition partition_func ::
  "('a \<Rightarrow> 'a \<Rightarrow> bool) \<Rightarrow> 'a list \<Rightarrow> nat \<Rightarrow> nat \<Rightarrow> nat \<Rightarrow> 'a list \<times> nat \<times> bool" where
  "partition_func lt xs a b pivot =
     (let xs0 = Swap xs a pivot;
          i = scan_up lt xs0 a (a + 1) (b - 1);
          j = scan_down lt xs0 a i (b - 1)
      in if i > j then (Swap xs0 j a, j, True)
         else
           (let (xs1, j1) = partition_loop lt (Swap xs0 i j) a (i + 1) (j - 1)
            in (Swap xs1 j1 a, j1, False)))"

text \<open>
  The scans of \<open>partitionEqual_func\<close>:
  \<open>for i <= j && !data.Less(a, i) { i++ }\<close> and
  \<open>for i <= j && data.Less(a, j) { j-- }\<close>.
\<close>

function scan_up_eq :: "('a \<Rightarrow> 'a \<Rightarrow> bool) \<Rightarrow> 'a list \<Rightarrow> nat \<Rightarrow> nat \<Rightarrow> nat \<Rightarrow> nat" where
  "scan_up_eq lt xs a i j =
     (if i \<le> j \<and> \<not> lt (xs ! a) (xs ! i) then scan_up_eq lt xs a (i + 1) j else i)"
  by pat_completeness auto
termination
  by (relation "measure (\<lambda>(lt, xs, a, i, j). j + 1 - i)") auto

declare scan_up_eq.simps [simp del]

fun scan_down_eq :: "('a \<Rightarrow> 'a \<Rightarrow> bool) \<Rightarrow> 'a list \<Rightarrow> nat \<Rightarrow> nat \<Rightarrow> nat \<Rightarrow> nat" where
  "scan_down_eq lt xs a i 0 = 0"
| "scan_down_eq lt xs a i (Suc j) =
     (if i \<le> Suc j \<and> lt (xs ! a) (xs ! Suc j) then scan_down_eq lt xs a i j else Suc j)"

lemma scan_up_eq_ge: "i \<le> scan_up_eq lt xs a i j"
proof (induction lt xs a i j rule: scan_up_eq.induct)
  case (1 lt xs a i j)
  then show ?case
    by (subst scan_up_eq.simps) (auto simp: Suc_leD)
qed

lemma scan_down_eq_le: "scan_down_eq lt xs a i j \<le> j"
  by (induction j) (auto simp: le_SucI)

function partitionEqual_loop ::
  "('a \<Rightarrow> 'a \<Rightarrow> bool) \<Rightarrow> 'a list \<Rightarrow> nat \<Rightarrow> nat \<Rightarrow> nat \<Rightarrow> 'a list \<times> nat" where
  "partitionEqual_loop lt xs a i j =
     (let i1 = scan_up_eq lt xs a i j;
          j1 = scan_down_eq lt xs a i1 j
      in if i1 > j1 then (xs, i1)
         else partitionEqual_loop lt (Swap xs i1 j1) a (i1 + 1) (j1 - 1))"
  by pat_completeness auto
termination
proof (relation "measure (\<lambda>(lt, xs, a, i, j). j + 1 - i)", goal_cases)
  case 1
  show ?case by simp
next
  case (2 lt xs a i j i1 j1)
  have "i \<le> i1" "j1 \<le> j"
    using 2 scan_up_eq_ge [of i lt xs a j] scan_down_eq_le [of lt xs a i1 j] by simp_all
  with 2 show ?case by auto
qed

declare partitionEqual_loop.simps [simp del]

text \<open>\<open>partitionEqual_func\<close>: the list and the index where the greater elements start.\<close>

definition partitionEqual ::
  "('a \<Rightarrow> 'a \<Rightarrow> bool) \<Rightarrow> 'a list \<Rightarrow> nat \<Rightarrow> nat \<Rightarrow> nat \<Rightarrow> 'a list \<times> nat" where
  "partitionEqual lt xs a b pivot = partitionEqual_loop lt (Swap xs a pivot) a (a + 1) (b - 1)"

text \<open>
  \<open>partialInsertionSort_func\<close>. Its two shifting loops,
  \<open>for j := i - 1; j >= 1; j-- { if !data.Less(j, j-1) { break }; data.Swap(j, j-1) }\<close> and
  \<open>for j := i + 1; j < b; j++ { if !data.Less(j, j-1) { break }; data.Swap(j, j-1) }\<close>:
\<close>

fun shift_left :: "('a \<Rightarrow> 'a \<Rightarrow> bool) \<Rightarrow> 'a list \<Rightarrow> nat \<Rightarrow> 'a list" where
  "shift_left lt xs 0 = xs"
| "shift_left lt xs (Suc j) =
     (if \<not> lt (xs ! Suc j) (xs ! j) then xs else shift_left lt (Swap xs (Suc j) j) j)"

function shift_right :: "('a \<Rightarrow> 'a \<Rightarrow> bool) \<Rightarrow> 'a list \<Rightarrow> nat \<Rightarrow> nat \<Rightarrow> 'a list" where
  "shift_right lt xs j b =
     (if j < b then
        (if \<not> lt (xs ! j) (xs ! (j - 1)) then xs else shift_right lt (Swap xs j (j - 1)) (j + 1) b)
      else xs)"
  by pat_completeness auto
termination
  by (relation "measure (\<lambda>(lt, xs, j, b). b - j)") auto

declare shift_right.simps [simp del]

text \<open>The scan \<open>for i < b && !data.Less(i, i-1) { i++ }\<close>.\<close>

function skip_sorted :: "('a \<Rightarrow> 'a \<Rightarrow> bool) \<Rightarrow> 'a list \<Rightarrow> nat \<Rightarrow> nat \<Rightarrow> nat" where
  "skip_sorted lt xs i b =
     (if i < b \<and> \<not> lt (xs ! i) (xs ! (i - 1)) then skip_sorted lt xs (i + 1) b else i)"
  by pat_completeness auto
termination
  by (relation "measure (\<lambda>(lt, xs, i, b). b - i)") auto

declare skip_sorted.simps [simp del]

text \<open>
  The outer loop of \<open>partialInsertionSort_func\<close>, \<open>steps\<close> rounds of it left
  (\<open>maxSteps = 5\<close>, \<open>shortestShifting = 50\<close>); it returns the list and whether the
  range is sorted.
\<close>

fun partialInsertionSort_loop ::
  "('a \<Rightarrow> 'a \<Rightarrow> bool) \<Rightarrow> nat \<Rightarrow> nat \<Rightarrow> nat \<Rightarrow> 'a list \<Rightarrow> nat \<Rightarrow> 'a list \<times> bool" where
  "partialInsertionSort_loop lt a b 0 xs i = (xs, False)"
| "partialInsertionSort_loop lt a b (Suc steps) xs i =
     (let i1 = skip_sorted lt xs i b
      in if i1 = b then (xs, True)
         else if b - a < 50 then (xs, False)
         else
           (let xs1 = Swap xs i1 (i1 - 1);
                xs2 = (if i1 - a \<ge> 2 then shift_left lt xs1 (i1 - 1) else xs1);
                xs3 = (if b - i1 \<ge> 2 then shift_right lt xs2 (i1 + 1) b else xs2)
            in partialInsertionSort_loop lt a b steps xs3 i1))"

definition partialInsertionSort ::
  "('a \<Rightarrow> 'a \<Rightarrow> bool) \<Rightarrow> 'a list \<Rightarrow> nat \<Rightarrow> nat \<Rightarrow> 'a list \<times> bool" where
  "partialInsertionSort lt xs a b = partialInsertionSort_loop lt a b 5 xs (a + 1)"

text \<open>
  \<open>breakPatterns_func\<close> swaps three elements around the middle with elements at
  pseudo-random places. \<open>rnd n k\<close> stands for the \<open>k\<close>-th number that the library's
  \<open>xorshift\<close> generator yields when seeded with \<open>n\<close>; the generator is a parameter.
  \<open>bits_Len\<close> is \<open>bits.Len\<close>, the number of bits of a number.
\<close>

fun bits_Len :: "nat \<Rightarrow> nat" where
  "bits_Len n = (if n = 0 then 0 else Suc (bits_Len (n div 2)))"

declare bits_Len.simps [simp del]

definition nextPowerOfTwo :: "nat \<Rightarrow> nat" where
  "nextPowerOfTwo n = 2 ^ bits_Len n"

definition breakPatterns :: "(nat \<Rightarrow> nat \<Rightarrow> nat) \<Rightarrow> 'a list \<Rightarrow> nat \<Rightarrow> nat \<Rightarrow> 'a list" where
  "breakPatterns rnd xs a b =
     (let n = b - a
      in if n \<ge> 8 then
           (let modulus = nextPowerOfTwo n;
                idx = a + (n div 4) * 2 - 1
            in foldl (\<lambda>ys i.
                 (let other0 = rnd n i mod modulus;
                      other = (if other0 \<ge> n then other0 - n else other0)
                  in Swap ys (idx - 1 + i) (a + other))) xs [0..<3])
         else xs)"

text \<open>\<open>reverseRange_func\<close>.\<close>

function reverseRange_loop :: "'a list \<Rightarrow> nat \<Rightarrow> nat \<Rightarrow> 'a list" where
  "reverseRange_loop xs i j = (if i < j then reverseRange_loop (Swap xs i j) (i + 1) (j - 1) else xs)"
  by pat_completeness auto
termination
  by (relation "measure (\<lambda>(xs, i, j). j - i)") auto

declare reverseRange_loop.simps [simp del]

definition reverseRange :: "'a list \<Rightarrow> nat \<Rightarrow> nat \<Rightarrow> 'a list" where
  "reverseRange xs a b = reverseRange_loop xs a (b - 1)"

text \<open>
  \<open>choosePivot_func\<close> and its helpers; they read the list and count the swaps they
  would make, without changing the list.
\<close>

datatype sortedHint = unknownHint | increasingHint | decreasingHint

definition order2 :: "('a \<Rightarrow> 'a \<Rightarrow> bool) \<Rightarrow> 'a list \<Rightarrow> nat \<Rightarrow> nat \<Rightarrow> nat \<Rightarrow> nat \<times> nat \<times> nat" where
  "order2 lt xs a b swaps = (if lt (xs ! b) (xs ! a) then (b, a, swaps + 1) else (a, b, swaps))"

definition median :: "('a \<Rightarrow> 'a \<Rightarrow> bool) \<Rightarrow> 'a list \<Rightarrow> nat \<Rightarrow> nat \<Rightarrow> nat \<Rightarrow> nat \<Rightarrow> nat \<times> nat" where
  "median lt xs a b c swaps =
     (let (a1, b1, s1) = order2 lt xs a b swaps;
          (b2, c2, s2) = order2 lt xs b1 c s1;
          (a3, b3, s3) = order2 lt xs a1 b2 s2
      in (b3, s3))"

definition medianAdjacent :: "('a \<Rightarrow> 'a \<Rightarrow> bool) \<Rightarrow> 'a list \<Rightarrow> nat \<Rightarrow> nat \<Rightarrow> nat \<times> nat" where
  "medianAdjacent lt xs a swaps = median lt xs (a - 1) a (a + 1) swaps"

definition choosePivot :: "('a \<Rightarrow> 'a \<Rightarrow> bool) \<Rightarrow> 'a list \<Rightarrow> nat \<Rightarrow> nat \<Rightarrow> nat \<times> sortedHint" where
  "choosePivot lt xs a b =
     (let l = b - a;
          i = a + l div 4 * 1;
          j = a + l div 4 * 2;
          k = a + l div 4 * 3;
          (j1, swaps) =
             (if l \<ge> 8 then
                (let (i2, j2, k2, s2) =
                       (if l \<ge> 50 then
                          (let (i3, s3) = medianAdjacent lt xs i 0;
                               (j3, s4) = medianAdjacent lt xs j s3;
                               (k3, s5) = medianAdjacent lt xs k s4
                           in (i3, j3, k3, s5))
                        else (i, j, k, 0))
                 in median lt xs i2 j2 k2 s2)
              else (j, 0))
      in if swaps = 0 then (j1, increasingHint)
         else if swaps = 4 * 3 then (j1, decreasingHint)
         else (j1, unknownHint))"

lemma scan_up_le: "i \<le> j + 1 \<Longrightarrow> scan_up lt xs a i j \<le> j + 1"
proof (induction lt xs a i j rule: scan_up.induct)
  case (1 lt xs a i j)
  then show ?case
    by (subst scan_up.simps) auto
qed

lemma scan_up_stop: "scan_up lt xs a i j \<le> j \<Longrightarrow> \<not> lt (xs ! scan_up lt xs a i j) (xs ! a)"
proof (induction lt xs a i j rule: scan_up.induct)
  case (1 lt xs a i j)
  show ?case
  proof (cases "i \<le> j \<and> lt (xs ! i) (xs ! a)")
    case True
    then have eq: "scan_up lt xs a i j = scan_up lt xs a (i + 1) j"
      by (simp add: scan_up.simps [of lt xs a i j])
    with "1.IH" [OF True] "1.prems" show ?thesis by simp
  next
    case False
    then have eq: "scan_up lt xs a i j = i"
      by (auto simp: scan_up.simps [of lt xs a i j])
    with False "1.prems" show ?thesis by auto
  qed
qed

lemma scan_down_ge: "i \<le> j + 1 \<Longrightarrow> i \<le> scan_down lt xs a i j + 1"
  by (induction j) auto

lemma scan_down_stop:
  "1 \<le> i \<Longrightarrow> i \<le> scan_down lt xs a i j \<Longrightarrow> lt (xs ! scan_down lt xs a i j) (xs ! a)"
  by (induction j) (auto split: if_splits)

lemma scans_cross:
  assumes "1 \<le> i" "i \<le> j + 1"
    and "\<not> scan_down lt xs a (scan_up lt xs a i j) j < scan_up lt xs a i j"
  shows "scan_up lt xs a i j < scan_down lt xs a (scan_up lt xs a i j) j"
proof -
  let ?i1 = "scan_up lt xs a i j"
  let ?j1 = "scan_down lt xs a ?i1 j"
  from assms(3) have le: "?i1 \<le> ?j1" by simp
  have "1 \<le> ?i1" using assms(1) scan_up_ge [of i lt xs a j] by simp
  from scan_down_stop [OF this le] have 1: "lt (xs ! ?j1) (xs ! a)" .
  have "?i1 \<le> j" using le scan_down_le [of lt xs a ?i1 j] by simp
  from scan_up_stop [OF this] have 2: "\<not> lt (xs ! ?i1) (xs ! a)" .
  from 1 2 have "?i1 \<noteq> ?j1" by auto
  with le show ?thesis by simp
qed

lemma partition_loop_bounds:
  "1 \<le> i \<Longrightarrow> i \<le> j + 1 \<Longrightarrow>
   i \<le> snd (partition_loop lt xs a i j) + 1 \<and> snd (partition_loop lt xs a i j) \<le> j"
proof (induction lt xs a i j rule: partition_loop.induct)
  case (1 lt xs a i j)
  let ?i1 = "scan_up lt xs a i j"
  let ?j1 = "scan_down lt xs a ?i1 j"
  have i1: "i \<le> ?i1" "?i1 \<le> j + 1"
    using scan_up_ge scan_up_le [OF "1.prems"(2)] by auto
  have j1: "?j1 \<le> j" "?i1 \<le> ?j1 + 1"
    using scan_down_le scan_down_ge [OF i1(2)] by auto
  show ?case
  proof (cases "?i1 > ?j1")
    case True
    with i1 j1 show ?thesis
      by (subst (1 2) partition_loop.simps) (simp add: Let_def)
  next
    case False
    from scans_cross [OF "1.prems" False] have "?i1 + 1 \<le> (?j1 - 1) + 1" by simp
    from "1.IH" [OF refl refl False _ this] False
    have "?i1 + 1 \<le> snd (partition_loop lt (Swap xs ?i1 ?j1) a (?i1 + 1) (?j1 - 1)) + 1"
         "snd (partition_loop lt (Swap xs ?i1 ?j1) a (?i1 + 1) (?j1 - 1)) \<le> ?j1 - 1"
      by auto
    with i1 j1 False show ?thesis
      by (subst (1 2) partition_loop.simps) (simp add: Let_def)
  qed
qed

lemma partition_func_bounds:
  assumes "a < b"
  shows "a \<le> fst (snd (partition_func lt xs a b pivot)) \<and> fst (snd (partition_func lt xs a b pivot)) < b"
proof -
  let ?xs0 = "Swap xs a pivot"
  let ?i = "scan_up lt ?xs0 a (a + 1) (b - 1)"
  let ?j = "scan_down lt ?xs0 a ?i (b - 1)"
  have i: "a + 1 \<le> ?i" "?i \<le> (b - 1) + 1"
    using scan_up_ge [of "a + 1"] scan_up_le [of "a + 1" "b - 1"] assms by auto
  have j: "?j \<le> b - 1" "?i \<le> ?j + 1"
    using scan_down_le scan_down_ge [OF i(2)] by auto
  show ?thesis
  proof (cases "?i > ?j")
    case True
    with i j assms show ?thesis
      by (simp add: partition_func_def Let_def)
  next
    case False
    have "1 \<le> a + 1" "a + 1 \<le> (b - 1) + 1" using assms by auto
    from scans_cross [OF this False] have "1 \<le> ?i + 1" "?i + 1 \<le> (?j - 1) + 1" by simp_all
    from partition_loop_bounds [OF this, of lt "Swap ?xs0 ?i ?j" a]
    have r: "?i + 1 \<le> snd (partition_loop lt (Swap ?xs0 ?i ?j) a (?i + 1) (?j - 1)) + 1"
            "snd (partition_loop lt (Swap ?xs0 ?i ?j) a (?i + 1) (?j - 1)) \<le> ?j - 1"
      by simp_all
    have eq: "fst (snd (partition_func lt xs a b pivot))
                = snd (partition_loop lt (Swap ?xs0 ?i ?j) a (?i + 1) (?j - 1))"
      using False by (simp add: partition_func_def Let_def split_beta)
    from r i j assms show ?thesis
      unfolding eq by linarith
  qed
qed

lemma partitionEqual_loop_ge: "i \<le> snd (partitionEqual_loop lt xs a i j)"
proof (induction lt xs a i j rule: partitionEqual_loop.induct)
  case (1 lt xs a i j)
  let ?i1 = "scan_up_eq lt xs a i j"
  let ?j1 = "scan_down_eq lt xs a ?i1 j"
  have i1: "i \<le> ?i1" by (rule scan_up_eq_ge)
  show ?case
  proof (cases "?i1 > ?j1")
    case True
    with i1 show ?thesis
      by (subst partitionEqual_loop.simps) (simp add: Let_def)
  next
    case False
    from "1.IH" [OF refl refl] False
    have "?i1 + 1 \<le> snd (partitionEqual_loop lt (Swap xs ?i1 ?j1) a (?i1 + 1) (?j1 - 1))"
      by auto
    with i1 False show ?thesis
      by (subst partitionEqual_loop.simps) (simp add: Let_def)
  qed
qed

lemma partitionEqual_gt: "a < snd (partitionEqual lt xs a b pivot)"
  using partitionEqual_loop_ge [of "a + 1" lt "Swap xs a pivot" a "b - 1"]
  by (simp add: partitionEqual_def)

text \<open>
  The loop of \<open>pdqsort_func\<close>, with its variables \<open>wasBalanced\<close> and
  \<open>wasPartitioned\<close> as arguments; a call of \<open>pdqsort_func\<close> enters it with both true.
\<close>

function pdqsort_loop ::
  "(nat \<Rightarrow> nat \<Rightarrow> nat) \<Rightarrow> ('a \<Rightarrow> 'a \<Rightarrow> bool) \<Rightarrow> 'a list \<Rightarrow> nat \<Rightarrow> nat \<Rightarrow> nat \<Rightarrow> bool \<Rightarrow> bool \<Rightarrow> 'a list" where
  "pdqsort_loop rnd lt xs a b limit wasBalanced wasPartitioned =
     (let n = b - a
      in if n \<le> 12 then insertionSort lt xs a b
         else if limit = 0 then heapSort lt xs a b
         else
           (let (xs1, limit1) =
                  (if \<not> wasBalanced then (breakPatterns rnd xs a b, limit - 1) else (xs, limit));
                (pivot0, hint0) = choosePivot lt xs1 a b;
                (xs2, pivot, hint) =
                  (if hint0 = decreasingHint
                   then (reverseRange xs1 a b, (b - 1) - (pivot0 - a), increasingHint)
                   else (xs1, pivot0, hint0));
                (xs3, sorted) =
                  (if wasBalanced \<and> wasPartitioned \<and> hint = increasingHint
                   then partialInsertionSort lt xs2 a b else (xs2, False))
            in if sorted then xs3
               else if a > 0 \<and> \<not> lt (xs3 ! (a - 1)) (xs3 ! pivot) then
                 (let (xs4, mid) = partitionEqual lt xs3 a b pivot
                  in pdqsort_loop rnd lt xs4 mid b limit1 wasBalanced wasPartitioned)
               else
                 (let (xs4, mid, alreadyPartitioned) = partition_func lt xs3 a b pivot;
                      leftLen = mid - a;
                      rightLen = b - mid;
                      balanceThreshold = n div 8
                  in if leftLen < rightLen then
                       pdqsort_loop rnd lt (pdqsort_loop rnd lt xs4 a mid limit1 True True)
                         (mid + 1) b limit1 (leftLen \<ge> balanceThreshold) alreadyPartitioned
                     else
                       pdqsort_loop rnd lt (pdqsort_loop rnd lt xs4 (mid + 1) b limit1 True True)
                         a mid limit1 (rightLen \<ge> balanceThreshold) alreadyPartitioned)))"
  by pat_completeness auto
termination
proof (relation "measure (\<lambda>(rnd, lt, xs, a, b, limit, wb, wp). b - a)", goal_cases)
  case 1
  show ?case by simp
next
  case prems: (2 rnd lt xs a b limit wb wp n x xs1 limit1 xa pivot0 hint0 xb xs2 xc pivot hint xd xs3 sorted xe xs4 mid)
  from prems have n: "12 < b - a" by simp
  from prems have "mid = snd (partitionEqual lt xs3 a b pivot)" by (metis snd_conv)
  with partitionEqual_gt [of a lt xs3 b pivot] have "a < mid" by simp
  with n show ?case by simp
next
  case prems: (3 rnd lt xs a b limit wb wp n x xs1 limit1 xa pivot0 hint0 xb xs2 xc pivot hint xd xs3 sorted xe xs4 xf mid ap)
  from prems have n: "a < b" by simp
  from prems have "mid = fst (snd (partition_func lt xs3 a b pivot))" by (metis fst_conv snd_conv)
  with partition_func_bounds [OF n, of lt xs3 pivot] n have "a \<le> mid" "mid < b" by simp_all
  then have "mid - a < b - a" "b - (mid + 1) < b - a" "b - mid \<le> b - a" using n by linarith+
  then show ?case by simp
next
  case prems: (4 rnd lt xs a b limit wb wp n x xs1 limit1 xa pivot0 hint0 xb xs2 xc pivot hint xd xs3 sorted xe xs4 xf mid ap)
  from prems have n: "a < b" by simp
  from prems have "mid = fst (snd (partition_func lt xs3 a b pivot))" by (metis fst_conv snd_conv)
  with partition_func_bounds [OF n, of lt xs3 pivot] n have "a \<le> mid" "mid < b" by simp_all
  then have "mid - a < b - a" "b - (mid + 1) < b - a" "b - mid \<le> b - a" using n by linarith+
  then show ?case by simp
next
  case prems: (5 rnd lt xs a b limit wb wp n x xs1 limit1 xa pivot0 hint0 xb xs2 xc pivot hint xd xs3 sorted xe xs4 xf mid ap)
  from prems have n: "a < b" by simp
  from prems have "mid = fst (snd (partition_func lt xs3 a b pivot))" by (metis fst_conv snd_conv)
  with partition_func_bounds [OF n, of lt xs3 pivot] n have "a \<le> mid" "mid < b" by simp_all
  then have "mid - a < b - a" "b - (mid + 1) < b - a" "b - mid \<le> b - a" using n by linarith+
  then show ?case by simp
next
  case prems: (6 rnd lt xs a b limit wb wp n x xs1 limit1 xa pivot0 hint0 xb xs2 xc pivot hint xd xs3 sorted xe xs4 xf mid ap)
  from prems have n: "a < b" by simp
  from prems have "mid = fst (snd (partition_func lt xs3 a b pivot))" by (metis fst_conv snd_conv)
  with partition_func_bounds [OF n, of lt xs3 pivot] n have "a \<le> mid" "mid < b" by simp_all
  then have "mid - a < b - a" "b - (mid + 1) < b - a" "b - mid \<le> b - a" using n by linarith+
  then show ?case by simp
qed

declare pdqsort_loop.simps [simp del]

text \<open>
  \<open>sort.Slice\<close> on a slice with content \<open>xs\<close>:
  \<open>pdqsort_func(lessSwap{less, swap}, 0, length, bits.Len(uint(length)))\<close>.
\<close>

definition pdqsort :: "(nat \<Rightarrow> nat \<Rightarrow> nat) \<Rightarrow> ('a \<Rightarrow> 'a \<Rightarrow> bool) \<Rightarrow> 'a list \<Rightarrow> 'a list" where
  "pdqsort rnd lt xs = pdqsort_loop rnd lt xs 0 (length xs) (bits_Len (length xs)) True True"

section \<open>Comparing and subtracting instants\<close>

definition Before :: "Time \<Rightarrow> Time \<Rightarrow> bool" where
  "Before t u = (ext t < ext u \<or> (ext t = ext u \<and> nsec t < nsec u))"

definition Equal :: "Time \<Rightarrow> Time \<Rightarrow> bool" where
  "Equal t u = (ext t = ext u \<and> nsec t = nsec u)"

text \<open>A \<open>Duration\<close> is an \<open>int64\<close> count of nanoseconds.\<close>

definition Second :: int where "Second = 1000000000"
definition Minute :: int where "Minute = 60 * Second"
definition minDuration :: int where "minDuration = - (2 ^ 63)"
definition maxDuration :: int where "maxDuration = 2 ^ 63 - 1"

definition addSec :: "Time \<Rightarrow> int \<Rightarrow> Time" where
  "addSec t d =
     (let sum = int64 (ext t + d)
      in if (sum > ext t) = (d > 0) then t\<lparr>ext := sum\<rparr>
         else if d > 0 then t\<lparr>ext := 2 ^ 63 - 1\<rparr>
         else t\<lparr>ext := - (2 ^ 63 - 1)\<rparr>)"

definition Add :: "Time \<Rightarrow> int \<Rightarrow> Time" where
  "Add t d =
     (let dsec = quo d 1000000000;
          ns = nsec t + rem d 1000000000;
          (dsec1, ns1) =
             (if ns \<ge> 1000000000 then (dsec + 1, ns - 1000000000)
              else if ns < 0 then (dsec - 1, ns + 1000000000)
              else (dsec, ns))
      in addSec (t\<lparr>nsec := ns1\<rparr>) dsec1)"

text \<open>\<open>t.Sub(u)\<close>: the difference, or the nearest \<open>Duration\<close> when it does not fit.\<close>

definition Sub :: "Time \<Rightarrow> Time \<Rightarrow> int" where
  "Sub t u =
     (let d = int64 ((ext t - ext u) * Second + (nsec t - nsec u))
      in if Equal (Add u d) t then d
         else if Before t u then minDuration
         else maxDuration)"

text \<open>
  \<open>d.Minutes()\<close> is a \<open>float64\<close>: the whole minutes plus the rest over a minute.
  It is modelled in exact arithmetic, without the rounding of \<open>float64\<close>; the
  conversion \<open>int(f)\<close> of Go discards the fraction.
\<close>

definition Minutes :: "int \<Rightarrow> rat" where
  "Minutes d = of_int (quo d Minute) + of_int (rem d Minute) / (60 * 1000000000)"

definition int_of_float :: "rat \<Rightarrow> int" where
  "int_of_float f = (if f < 0 then \<lceil>f\<rceil> else \<lfloor>f\<rfloor>)"

section \<open>The pipeline of main.go\<close>

text \<open>
  \<open>sort.Slice(filteredDepartures, less)\<close> sorts the elements of the slice in its
  backing array; \<open>less\<close> compares the expected times of the elements at two
  indices.
\<close>

definition less_expected :: "Departure \<Rightarrow> Departure \<Rightarrow> bool" where
  "less_expected x y = Before (Expected x) (Expected y)"

fun sort_Slice :: "(nat \<Rightarrow> nat \<Rightarrow> nat) \<Rightarrow> heap \<Rightarrow> slice \<Rightarrow> heap" where
  "sort_Slice rnd h NilSlice = h"
| "sort_Slice rnd h (Slice a off n c) =
     h[a := take off (h ! a) @ pdqsort rnd less_expected (take n (drop off (h ! a)))
              @ drop (off + n) (h ! a)]"

text \<open>
  The query of a request, as \<open>r.URL.Query()\<close> returns it: the values of every
  key, in order; \<open>Get\<close> is the first value of a key, or the empty string.
\<close>

type_synonym Values = "string \<Rightarrow> string list"

definition Get :: "Values \<Rightarrow> string \<Rightarrow> string" where
  "Get v key = (case v key of [] \<Rightarrow> '''' | x # xs \<Rightarrow> x)"

text \<open>
  \<open>getDepartures\<close>. The upstream call \<open>fetchDepartures\<close> is the parameter \<open>fetch\<close>:
  for a site it yields the message of an error, or the slice \<open>Departures\<close> of the
  decoded response, which lives in the store handed in. An error is its message.
  The result is the store and the triple the function returns.
\<close>

definition getDepartures ::
  "(nat \<Rightarrow> nat \<Rightarrow> nat) \<Rightarrow> (nat \<Rightarrow> nat \<Rightarrow> nat) \<Rightarrow> (string \<Rightarrow> string + slice) \<Rightarrow> heap \<Rightarrow> Values
     \<Rightarrow> heap \<times> slice \<times> string \<times> string option" where
  "getDepartures grow rnd fetch h r =
     (let siteID = Get r ''siteId''
      in if siteID = '''' then (h, NilSlice, '''', Some ''siteId query parameter is required'')
         else
           (case fetch siteID of
              Inl err \<Rightarrow> (h, NilSlice, siteID, Some err)
            | Inr departures \<Rightarrow>
                (let lineID = Get r ''lineId'';
                     direction = Get r ''direction'';
                     (h1, filteredDepartures) = filterDepartures grow h departures lineID direction;
                     h2 = sort_Slice rnd h1 filteredDepartures
                 in (h2, filteredDepartures, siteID, None))))"

text \<open>What a handler leaves in the \<open>http.ResponseWriter\<close>.\<close>

record Response =
  status :: nat
  content_type :: "string option"
  body :: string

definition nl :: string where
  "nl = [CHR 0x0A]"

text \<open>
  \<open>http.Error(w, msg, code)\<close> sets the content type, writes the status and prints
  the message and a newline.
\<close>

definition http_Error :: "string \<Rightarrow> nat \<Rightarrow> Response" where
  "http_Error msg code =
     \<lparr> status = code, content_type = Some ''text/plain; charset=utf-8'', body = msg @ nl \<rparr>"

definition StatusInternalServerError :: nat where
  "StatusInternalServerError = 500"

definition divider :: string where
  "divider = ''--------------------''"

text \<open>The lines \<open>prettyPrintDepartures\<close> prints for one departure.\<close>

definition delay_line :: "Departure \<Rightarrow> string" where
  "delay_line d =
     (let scheduledTime = Format_clock (Scheduled d);
          expectedTime = Format_clock (Expected d)
      in if scheduledTime \<noteq> expectedTime then
           (let delay = Sub (Expected d) (Scheduled d)
            in ''  Delay:     '' @ itoa (int_of_float (Minutes delay)) @ '' minutes'' @ nl)
         else '''')"

definition departure_block :: "Departure \<Rightarrow> string" where
  "departure_block d =
     ''Line '' @ Designation (Line d) @ '' (ID: '' @ itoa (ID (Line d)) @ '') to ''
       @ Destination d @ nl
     @ ''  Direction: '' @ Direction d @ nl
     @ ''  Scheduled: '' @ Format_clock (Scheduled d) @ nl
     @ ''  Expected:  '' @ Format_clock (Expected d) @ nl
     @ delay_line d
     @ divider @ nl"

definition prettyPrintDepartures :: "heap \<Rightarrow> slice \<Rightarrow> string \<Rightarrow> string" where
  "prettyPrintDepartures h departures siteID =
     (if len_of departures = 0 then
        ''No departures found matching the criteria for site ID: '' @ siteID @ nl
      else
        ''Upcoming Departures for site ID '' @ siteID
          @ '' (sorted by expected departure time):'' @ nl
        @ divider @ nl
        @ concat (map departure_block (elems h departures)))"

definition handleDepartures ::
  "(nat \<Rightarrow> nat \<Rightarrow> nat) \<Rightarrow> (nat \<Rightarrow> nat \<Rightarrow> nat) \<Rightarrow> (string \<Rightarrow> string + slice) \<Rightarrow> heap \<Rightarrow> Values
     \<Rightarrow> Response" where
  "handleDepartures grow rnd fetch h r =
     (case getDepartures grow rnd fetch h r of
        (h1, departures, siteID, Some err) \<Rightarrow>
          http_Error (''Error fetching departure data: '' @ err) StatusInternalServerError
      | (h1, departures, siteID, None) \<Rightarrow>
          \<lparr> status = 200, content_type = None,
            body = prettyPrintDepartures h1 departures siteID \<rparr>)"

text \<open>
  The JSON encoding of the slice: \<open>null\<close> for the nil slice, else the objects of
  the elements between brackets; \<open>Encode\<close> ends its output with a newline.
\<close>

definition encodeDeparture :: "(string \<Rightarrow> string) \<Rightarrow> Departure \<Rightarrow> string" where
  "encodeDeparture escape d =
     ''{'' @ appendString escape ''destination'' @ '':'' @ appendString escape (Destination d)
     @ '','' @ appendString escape ''direction'' @ '':'' @ appendString escape (Direction d)
     @ '','' @ appendString escape ''scheduled'' @ '':'' @ MarshalJSON escape (Scheduled d)
     @ '','' @ appendString escape ''expected'' @ '':'' @ MarshalJSON escape (Expected d)
     @ '','' @ appendString escape ''line'' @ '':''
       @ ''{'' @ appendString escape ''id'' @ '':'' @ itoa (ID (Line d))
       @ '','' @ appendString escape ''designation'' @ '':''
       @ appendString escape (Designation (Line d)) @ ''}''
     @ ''}''"

fun join_comma :: "string list \<Rightarrow> string" where
  "join_comma [] = ''''"
| "join_comma [x] = x"
| "join_comma (x # y # ys) = x @ '','' @ join_comma (y # ys)"

definition Encode :: "(string \<Rightarrow> string) \<Rightarrow> heap \<Rightarrow> slice \<Rightarrow> string" where
  "Encode escape h s =
     (case s of
        NilSlice \<Rightarrow> ''null''
      | Slice a off n c \<Rightarrow> ''['' @ join_comma (map (encodeDeparture escape) (elems h s)) @ '']'')
     @ nl"

text \<open>
  \<open>handleDeparturesJSON\<close>. The composite literal \<open>[]Departure{}\<close> is a slice that
  is not nil, of length and capacity zero.
\<close>

definition handleDeparturesJSON ::
  "(nat \<Rightarrow> nat \<Rightarrow> nat) \<Rightarrow> (nat \<Rightarrow> nat \<Rightarrow> nat) \<Rightarrow> (string \<Rightarrow> string) \<Rightarrow> (string \<Rightarrow> string + slice)
     \<Rightarrow> heap \<Rightarrow> Values \<Rightarrow> Response" where
  "handleDeparturesJSON grow rnd escape fetch h r =
     (case getDepartures grow rnd fetch h r of
        (h1, departures, siteID, Some err) \<Rightarrow>
          http_Error (''Error fetching departure data: '' @ err) StatusInternalServerError
      | (h1, departures, siteID, None) \<Rightarrow>
          (let (h2, departures1) =
                 (if len_of departures = 0 then (h1 @ [[]], Slice (length h1) 0 0 0)
                  else (h1, departures))
           in \<lparr> status = 200, content_type = Some ''application/json'',
                body = Encode escape h2 departures1 \<rparr>))"


section \<open>The codec: short and mis-delimited input\<close>

text \<open>
  C2. The claim: on an input shorter than two bytes \<open>UnmarshalJSON\<close> returns an
  error and does not slice out of range. The code slices first: on the empty
  input, on a lone quote and on the one-byte JSON number \<open>5\<close> the slice expression
  is out of range and the call panics.
\<close>

theorem UnmarshalJSON_short_input_panics:
  "UnmarshalJSON '''' = Panic \<and> UnmarshalJSON [CHR 0x22] = Panic \<and> UnmarshalJSON ''5'' = Panic"
  by (simp add: UnmarshalJSON_def)

lemma UnmarshalJSON_short: "length b < 2 \<Longrightarrow> UnmarshalJSON b = Panic"
  by (simp add: UnmarshalJSON_def)

text \<open>
  C9. \<open>UnmarshalJSON\<close> drops the first and the last byte of its input whatever
  they are: when the input has at least two bytes and what lies between the first
  and the last parses in the layout, decoding succeeds with the parsed instant.
\<close>

theorem UnmarshalJSON_ignores_delimiters:
  assumes "2 \<le> length b" and "Parse (butlast (tl b)) = Inr t"
  shows "UnmarshalJSON b = Done t"
proof -
  have "take (length b - 1 - 1) (drop 1 b) = butlast (tl b)"
    by (simp add: butlast_conv_take drop_Suc)
  with assms show ?thesis
    by (simp add: UnmarshalJSON_def)
qed

theorem UnmarshalJSON_ignores_delimiters_witness:
  "2 \<le> length ''x2024-01-15T08:30:00y''
   \<and> Parse (butlast (tl ''x2024-01-15T08:30:00y'')) = Inr (at_sec 63840904200)
   \<and> UnmarshalJSON ''x2024-01-15T08:30:00y'' = Done (at_sec 63840904200)"
proof -
  have 1: "2 \<le> length ''x2024-01-15T08:30:00y''" by simp
  have 2: "Parse (butlast (tl ''x2024-01-15T08:30:00y'')) = Inr (at_sec 63840904200)"
    by code_simp
  from 1 2 UnmarshalJSON_ignores_delimiters [OF 1 2] show ?thesis by simp
qed

section \<open>The filter: what it keeps and what it leaves alone\<close>

lemma elems_Nil [simp]: "elems h NilSlice = []"
  by (simp add: elems_def)

lemma elems_Slice: "elems h (Slice a off n c) = map (\<lambda>i. h ! a ! (off + i)) [0..<n]"
  by (simp add: elems_def)

lemma elems_Slice_take: "off + n \<le> length (h ! a) \<Longrightarrow> elems h (Slice a off n c) = take n (drop off (h ! a))"
  by (auto simp: elems_Slice intro!: nth_equalityI)

lemma elems_inplace:
  assumes "a < length h" "off + n < length (h ! a)"
  shows "elems (h[a := (h ! a)[off + n := x]]) (Slice a off (Suc n) c) = elems h (Slice a off n c) @ [x]"
  using assms by (auto simp: elems_Slice nth_list_update)

lemma elems_fresh:
  assumes "off + n \<le> length (h ! a)"
  shows "elems (h @ [take n (drop off (h ! a)) @ x # zs]) (Slice (length h) 0 (Suc n) c1)
         = elems h (Slice a off n c) @ [x]"
  using assms by (auto simp: elems_Slice nth_append intro!: nth_equalityI)

lemma append_slice_inv:
  assumes "filter_inv h0 (h, f) acc"
  shows "filter_inv h0 (append_slice grow h f x) (acc @ [x])"
proof (cases f)
  case NilSlice
  with assms show ?thesis
    by (auto simp: filter_inv_def fresh_slice_def Let_def elems_Slice)
next
  case (Slice a off n c)
  with assms have a: "length h0 \<le> a" "a < length h" "n \<le> c" "off + c \<le> length (h ! a)"
    and t: "take (length h0) h = h0" and e: "elems h (Slice a off n c) = acc"
    by (auto simp: filter_inv_def fresh_slice_def)
  show ?thesis
  proof (cases "n < c")
    case True
    have "elems (h[a := (h ! a)[off + n := x]]) (Slice a off (Suc n) c) = acc @ [x]"
      using elems_inplace [of a h off n x c] a True e by simp
    with a t True Slice show ?thesis
      by (simp add: filter_inv_def fresh_slice_def)
  next
    case False
    have "elems (h @ [take n (drop off (h ! a)) @ x # zs]) (Slice (length h) 0 (Suc n) c1) = acc @ [x]" for zs c1
      using elems_fresh [of off n h a x zs c1 c] a e by simp
    with a t False Slice show ?thesis
      by (simp add: filter_inv_def fresh_slice_def Let_def)
  qed
qed

lemma index_frame:
  assumes "wf_slice h0 s" "length h0 \<le> length h" "take (length h0) h = h0"
  shows "index h s i = index h0 s i"
proof (cases s)
  case NilSlice
  then show ?thesis by simp
next
  case (Slice a off n c)
  with assms have "a < length h0" by simp
  then have "h ! a = h0 ! a"
    using assms(3) by (metis nth_take)
  with Slice show ?thesis by simp
qed

lemma filter_step_inv:
  assumes "filter_inv h0 st acc" "wf_slice h0 s"
  shows "filter_inv h0 (filter_step grow s lineID direction st i)
           (acc @ filter (spec_keeps lineID direction) [index h0 s i])"
proof -
  obtain h f where st: "st = (h, f)" by (cases st)
  from assms st have "index h s i = index h0 s i"
    by (intro index_frame) (auto simp: filter_inv_def)
  with assms(1) st append_slice_inv [of h0 h f acc grow "index h0 s i"] show ?thesis
    by (auto simp: filter_step_def spec_keeps_def Let_def split: sum.splits)
qed

lemma filter_loop_inv:
  assumes "wf_slice h0 s"
  shows "filter_inv h0 (foldl (filter_step grow s lineID direction) (h0, NilSlice) [0..<n])
           (filter (spec_keeps lineID direction) (map (index h0 s) [0..<n]))"
proof (induction n)
  case 0
  show ?case by (simp add: filter_inv_def fresh_slice_def)
next
  case (Suc n)
  from filter_step_inv [OF Suc assms] show ?case by simp
qed

lemma filterDepartures_inv:
  assumes "wf_slice h0 s"
  shows "filter_inv h0 (filterDepartures grow h0 s lineID direction)
           (filter (spec_keeps lineID direction) (elems h0 s))"
  using filter_loop_inv [OF assms] by (simp add: filterDepartures_def elems_def)

text \<open>
  C4. For every well-formed input slice and every pair of filters, the slice that
  \<open>filterDepartures\<close> returns holds exactly the records the specification keeps,
  in the input's order: those whose line identifier equals the parsed line filter
  (when that filter is not empty) and whose direction equals the direction filter
  (when that one is not empty). A line filter that is not empty and does not parse
  leaves no record; two empty filters leave every record.
\<close>

theorem filterDepartures_keeps_exactly:
  assumes "wf_slice h departures"
  shows "elems (fst (filterDepartures grow h departures lineID direction))
               (snd (filterDepartures grow h departures lineID direction))
           = filter (spec_keeps lineID direction) (elems h departures)
         \<and> (lineID \<noteq> '''' \<and> isl (Atoi lineID) \<longrightarrow>
              elems (fst (filterDepartures grow h departures lineID direction))
                    (snd (filterDepartures grow h departures lineID direction)) = [])
         \<and> (lineID = '''' \<and> direction = '''' \<longrightarrow>
              elems (fst (filterDepartures grow h departures lineID direction))
                    (snd (filterDepartures grow h departures lineID direction))
                = elems h departures)"
proof -
  let ?out = "elems (fst (filterDepartures grow h departures lineID direction))
                    (snd (filterDepartures grow h departures lineID direction))"
  have eq: "?out = filter (spec_keeps lineID direction) (elems h departures)"
    using filterDepartures_inv [OF assms, of grow lineID direction]
    by (simp add: filter_inv_def)
  have bad: "?out = []" if "lineID \<noteq> ''''" "isl (Atoi lineID)"
  proof -
    from that have "\<not> spec_keeps lineID direction d" for d
      by (cases "Atoi lineID") (simp_all add: spec_keeps_def)
    with eq show ?thesis by simp
  qed
  have none: "?out = elems h departures" if "lineID = ''''" "direction = ''''"
    using that eq by (simp add: spec_keeps_def)
  from eq bad none show ?thesis by blast
qed

theorem filterDepartures_keeps_exactly_witness:
  "wf_slice [[dep ''A'' ''N'' zeroTime zeroTime 10 ''10'', dep ''B'' ''S'' zeroTime zeroTime 20 ''20'',
              dep ''C'' ''S'' zeroTime zeroTime 10 ''10'']] (Slice 0 0 3 3)
   \<and> elems (fst (filterDepartures double_cap
                   [[dep ''A'' ''N'' zeroTime zeroTime 10 ''10'', dep ''B'' ''S'' zeroTime zeroTime 20 ''20'',
                     dep ''C'' ''S'' zeroTime zeroTime 10 ''10'']] (Slice 0 0 3 3) ''10'' ''''))
            (snd (filterDepartures double_cap
                   [[dep ''A'' ''N'' zeroTime zeroTime 10 ''10'', dep ''B'' ''S'' zeroTime zeroTime 20 ''20'',
                     dep ''C'' ''S'' zeroTime zeroTime 10 ''10'']] (Slice 0 0 3 3) ''10'' ''''))
       = [dep ''A'' ''N'' zeroTime zeroTime 10 ''10'', dep ''C'' ''S'' zeroTime zeroTime 10 ''10'']"
proof -
  let ?h = "[[dep ''A'' ''N'' zeroTime zeroTime 10 ''10'', dep ''B'' ''S'' zeroTime zeroTime 20 ''20'',
              dep ''C'' ''S'' zeroTime zeroTime 10 ''10'']]"
  have wf: "wf_slice ?h (Slice 0 0 3 3)" by simp
  have "filter (spec_keeps ''10'' '''') (elems ?h (Slice 0 0 3 3))
          = [dep ''A'' ''N'' zeroTime zeroTime 10 ''10'', dep ''C'' ''S'' zeroTime zeroTime 10 ''10'']"
    by code_simp
  with wf filterDepartures_keeps_exactly [OF wf, of double_cap "''10''" "''''"] show ?thesis
    by simp
qed

text \<open>
  C8. \<open>filterDepartures\<close> writes to no array that was in the store when it was
  called: every such array is the same afterwards, so the input slice reads the
  same elements in the same order, and the slice returned is nil or lives in an
  array allocated during the call.
\<close>

theorem filterDepartures_leaves_input:
  assumes "wf_slice h departures"
  shows "take (length h) (fst (filterDepartures grow h departures lineID direction)) = h
         \<and> elems (fst (filterDepartures grow h departures lineID direction)) departures
             = elems h departures
         \<and> fresh_slice h (snd (filterDepartures grow h departures lineID direction))"
proof -
  let ?st = "filterDepartures grow h departures lineID direction"
  have inv: "filter_inv h ?st (filter (spec_keeps lineID direction) (elems h departures))"
    by (rule filterDepartures_inv [OF assms])
  then have frame: "length h \<le> length (fst ?st)" "take (length h) (fst ?st) = h"
    and fresh: "fresh_slice h (snd ?st)"
    by (simp_all add: filter_inv_def)
  have "index (fst ?st) departures i = index h departures i" for i
    by (rule index_frame [OF assms frame])
  then have "elems (fst ?st) departures = elems h departures"
    by (simp add: elems_def)
  with frame fresh show ?thesis by simp
qed

theorem filterDepartures_leaves_input_witness:
  "wf_slice [[dep ''A'' ''N'' zeroTime zeroTime 10 ''10'', dep ''B'' ''S'' zeroTime zeroTime 20 ''20'']]
            (Slice 0 0 2 2)
   \<and> filterDepartures double_cap
        [[dep ''A'' ''N'' zeroTime zeroTime 10 ''10'', dep ''B'' ''S'' zeroTime zeroTime 20 ''20'']]
        (Slice 0 0 2 2) ''20'' ''S''
      = ([[dep ''A'' ''N'' zeroTime zeroTime 10 ''10'', dep ''B'' ''S'' zeroTime zeroTime 20 ''20''],
          [dep ''B'' ''S'' zeroTime zeroTime 20 ''20'']], Slice 1 0 1 1)
   \<and> fresh_slice [[dep ''A'' ''N'' zeroTime zeroTime 10 ''10'', dep ''B'' ''S'' zeroTime zeroTime 20 ''20'']]
        (snd (filterDepartures double_cap
               [[dep ''A'' ''N'' zeroTime zeroTime 10 ''10'', dep ''B'' ''S'' zeroTime zeroTime 20 ''20'']]
               (Slice 0 0 2 2) ''20'' ''S''))"
proof -
  let ?h = "[[dep ''A'' ''N'' zeroTime zeroTime 10 ''10'', dep ''B'' ''S'' zeroTime zeroTime 20 ''20'']]"
  have wf: "wf_slice ?h (Slice 0 0 2 2)" by simp
  have run: "filterDepartures double_cap ?h (Slice 0 0 2 2) ''20'' ''S''
               = (?h @ [[dep ''B'' ''S'' zeroTime zeroTime 20 ''20'']], Slice 1 0 1 1)"
    by code_simp
  from wf run filterDepartures_leaves_input [OF wf, of double_cap "''20''" "''S''"] show ?thesis
    by simp
qed

text \<open>
  C10. The output of \<open>filterDepartures\<close> is a subsequence of its input: its
  records are records of the input, in the input's order, none of them used
  twice; so it is no longer than the input and holds nothing the input lacks.
\<close>

theorem filterDepartures_subseq:
  assumes "wf_slice h departures"
  shows "subseq (elems (fst (filterDepartures grow h departures lineID direction))
                       (snd (filterDepartures grow h departures lineID direction)))
                (elems h departures)
         \<and> set (elems (fst (filterDepartures grow h departures lineID direction))
                       (snd (filterDepartures grow h departures lineID direction)))
             \<subseteq> set (elems h departures)
         \<and> len_of (snd (filterDepartures grow h departures lineID direction)) \<le> len_of departures"
proof -
  let ?st = "filterDepartures grow h departures lineID direction"
  have eq: "elems (fst ?st) (snd ?st) = filter (spec_keeps lineID direction) (elems h departures)"
    using filterDepartures_inv [OF assms, of grow lineID direction]
    by (simp add: filter_inv_def)
  have "length (elems (fst ?st) (snd ?st)) \<le> length (elems h departures)"
    unfolding eq by (rule length_filter_le)
  then have "len_of (snd ?st) \<le> len_of departures"
    by (simp add: elems_def)
  with eq show ?thesis
    by (auto simp: subseq_filter_left)
qed

theorem filterDepartures_subseq_witness:
  "wf_slice [[dep ''A'' ''N'' zeroTime zeroTime 10 ''10'', dep ''B'' ''S'' zeroTime zeroTime 20 ''20'',
              dep ''A'' ''N'' zeroTime zeroTime 10 ''10'']] (Slice 0 0 3 3)
   \<and> subseq (elems (fst (filterDepartures double_cap
                          [[dep ''A'' ''N'' zeroTime zeroTime 10 ''10'', dep ''B'' ''S'' zeroTime zeroTime 20 ''20'',
                            dep ''A'' ''N'' zeroTime zeroTime 10 ''10'']] (Slice 0 0 3 3) '''' ''N''))
                   (snd (filterDepartures double_cap
                          [[dep ''A'' ''N'' zeroTime zeroTime 10 ''10'', dep ''B'' ''S'' zeroTime zeroTime 20 ''20'',
                            dep ''A'' ''N'' zeroTime zeroTime 10 ''10'']] (Slice 0 0 3 3) '''' ''N'')))
        [dep ''A'' ''N'' zeroTime zeroTime 10 ''10'', dep ''B'' ''S'' zeroTime zeroTime 20 ''20'',
         dep ''A'' ''N'' zeroTime zeroTime 10 ''10'']"
proof -
  let ?h = "[[dep ''A'' ''N'' zeroTime zeroTime 10 ''10'', dep ''B'' ''S'' zeroTime zeroTime 20 ''20'',
              dep ''A'' ''N'' zeroTime zeroTime 10 ''10'']]"
  have wf: "wf_slice ?h (Slice 0 0 3 3)" by simp
  have el: "elems ?h (Slice 0 0 3 3)
              = [dep ''A'' ''N'' zeroTime zeroTime 10 ''10'', dep ''B'' ''S'' zeroTime zeroTime 20 ''20'',
                 dep ''A'' ''N'' zeroTime zeroTime 10 ''10'']"
    by code_simp
  from wf el filterDepartures_subseq [OF wf, of double_cap "''''" "''N''"] show ?thesis
    by simp
qed

section \<open>The handlers: a missing site and an empty result\<close>

text \<open>Parameters and requests for the examples.\<close>

definition rnd_zero :: "nat \<Rightarrow> nat \<Rightarrow> nat" where
  "rnd_zero n k = 0"

definition no_query :: Values where
  "no_query key = []"

definition fetch_unreachable :: "string \<Rightarrow> string + slice" where
  "fetch_unreachable siteID = Inl ''error making request: no route to host''"

definition query_9001 :: Values where
  "query_9001 key = (if key = ''siteId'' then [''9001''] else if key = ''lineId'' then [''7''] else [])"

definition fetch_two :: "string \<Rightarrow> string + slice" where
  "fetch_two siteID = Inr (Slice 0 0 2 2)"

definition store_two :: heap where
  "store_two =
     [[dep ''Uptown'' ''South'' (at_sec 63840903000) (at_sec 63840903000) 2 ''2'',
       dep ''Downtown'' ''North'' (at_sec 63840902400) (at_sec 63840902700) 1 ''1'']]"

lemma getDepartures_no_site:
  "Get r ''siteId'' = '''' \<Longrightarrow>
   getDepartures grow rnd fetch h r = (h, NilSlice, '''', Some ''siteId query parameter is required'')"
  by (simp add: getDepartures_def)

text \<open>
  C5, as the code has it. For a request whose \<open>siteId\<close> is absent (or empty), both
  handlers answer with status 500 and a plain-text body that is the handler's
  prefix \<open>Error fetching departure data: \<close>, then
  \<open>siteId query parameter is required\<close>, then a newline.
\<close>

theorem handlers_missing_siteId:
  assumes "Get r ''siteId'' = ''''"
  shows "handleDepartures grow rnd fetch h r
           = \<lparr> status = 500, content_type = Some ''text/plain; charset=utf-8'',
               body = ''Error fetching departure data: siteId query parameter is required'' @ nl \<rparr>
         \<and> handleDeparturesJSON grow rnd escape fetch h r
           = \<lparr> status = 500, content_type = Some ''text/plain; charset=utf-8'',
               body = ''Error fetching departure data: siteId query parameter is required'' @ nl \<rparr>"
  using getDepartures_no_site [OF assms]
  by (simp add: handleDepartures_def handleDeparturesJSON_def http_Error_def
      StatusInternalServerError_def)

theorem handlers_missing_siteId_witness:
  "Get no_query ''siteId'' = ''''
   \<and> status (handleDepartures double_cap rnd_zero fetch_unreachable [] no_query) = 500
   \<and> body (handleDepartures double_cap rnd_zero fetch_unreachable [] no_query)
       = ''Error fetching departure data: siteId query parameter is required'' @ nl"
proof -
  have g: "Get no_query ''siteId'' = ''''"
    by (simp add: Get_def no_query_def)
  from g handlers_missing_siteId [OF g, of double_cap rnd_zero fetch_unreachable "[]" id]
  show ?thesis by simp
qed

text \<open>
  The claim as the specification words it: the body is
  \<open>siteId query parameter is required\<close>. The body the text handler writes for the
  request without any parameter is another string.
\<close>

theorem handlers_missing_siteId_counterexample:
  "status (handleDepartures double_cap rnd_zero fetch_unreachable [] no_query) = 500
   \<and> body (handleDepartures double_cap rnd_zero fetch_unreachable [] no_query)
       \<noteq> ''siteId query parameter is required''"
  by (simp add: handleDepartures_def getDepartures_def Get_def no_query_def http_Error_def
      StatusInternalServerError_def nl_def)

lemma len_of_sorted_result:
  assumes "fetch (Get r ''siteId'') = Inr departures" "Get r ''siteId'' \<noteq> ''''"
  shows "\<exists>h1. getDepartures grow rnd fetch h r
           = (h1, snd (filterDepartures grow h departures (Get r ''lineId'') (Get r ''direction'')),
              Get r ''siteId'', None)"
  using assms by (simp add: getDepartures_def Let_def split_beta)

text \<open>
  C7. When the site is given, the upstream call succeeds and the filter leaves a
  slice of length zero, the JSON handler answers 200 with the empty array \<open>[]\<close>
  (and the newline that \<open>Encode\<close> adds), not \<open>null\<close>; the text handler answers
  with the line that names the site.
\<close>

theorem handlers_empty_result:
  assumes "Get r ''siteId'' \<noteq> ''''"
    and "fetch (Get r ''siteId'') = Inr departures"
    and "len_of (snd (filterDepartures grow h departures (Get r ''lineId'') (Get r ''direction''))) = 0"
  shows "handleDeparturesJSON grow rnd escape fetch h r
           = \<lparr> status = 200, content_type = Some ''application/json'', body = ''[]'' @ nl \<rparr>
         \<and> handleDepartures grow rnd fetch h r
           = \<lparr> status = 200, content_type = None,
               body = ''No departures found matching the criteria for site ID: ''
                        @ Get r ''siteId'' @ nl \<rparr>"
proof -
  from len_of_sorted_result [where fetch = fetch and r = r and departures = departures
      and grow = grow and rnd = rnd and h = h] assms(1,2)
  obtain h1 where g: "getDepartures grow rnd fetch h r
      = (h1, snd (filterDepartures grow h departures (Get r ''lineId'') (Get r ''direction'')),
         Get r ''siteId'', None)"
    by blast
  have e: "Encode escape (h1 @ [[]]) (Slice (length h1) 0 0 0) = ''[]'' @ nl"
    by (simp add: Encode_def elems_def)
  from g assms(3) e show ?thesis
    by (simp add: handleDeparturesJSON_def handleDepartures_def prettyPrintDepartures_def)
qed

theorem handlers_empty_result_witness:
  "Get query_9001 ''siteId'' \<noteq> ''''
   \<and> fetch_two (Get query_9001 ''siteId'') = Inr (Slice 0 0 2 2)
   \<and> len_of (snd (filterDepartures double_cap store_two (Slice 0 0 2 2)
                    (Get query_9001 ''lineId'') (Get query_9001 ''direction''))) = 0
   \<and> body (handleDeparturesJSON double_cap rnd_zero id fetch_two store_two query_9001) = ''[]'' @ nl
   \<and> body (handleDepartures double_cap rnd_zero fetch_two store_two query_9001)
       = ''No departures found matching the criteria for site ID: 9001'' @ nl"
proof -
  have 1: "Get query_9001 ''siteId'' \<noteq> ''''"
    by (simp add: Get_def query_9001_def)
  have 2: "fetch_two (Get query_9001 ''siteId'') = Inr (Slice 0 0 2 2)"
    by (simp add: fetch_two_def)
  have 3: "len_of (snd (filterDepartures double_cap store_two (Slice 0 0 2 2)
                    (Get query_9001 ''lineId'') (Get query_9001 ''direction''))) = 0"
    by code_simp
  have 4: "Get query_9001 ''siteId'' = ''9001''"
    by (simp add: Get_def query_9001_def)
  from 1 2 3 handlers_empty_result [where fetch = fetch_two and r = query_9001
      and departures = "Slice 0 0 2 2" and grow = double_cap and h = store_two
      and rnd = rnd_zero and escape = id]
  show ?thesis
    by (simp add: 4)
qed

section \<open>Truncated division and the difference of instants\<close>

lemma quo_pos: "0 \<le> a \<Longrightarrow> 0 < b \<Longrightarrow> quo a b = a div b"
  by (cases "a = 0") (simp_all add: quo_def)

lemma rem_pos: "0 \<le> a \<Longrightarrow> 0 < b \<Longrightarrow> rem a b = a mod b"
  by (cases "a = 0") (simp_all add: rem_def)

lemma quo_neg: "a < 0 \<Longrightarrow> 0 < b \<Longrightarrow> quo a b = - ((- a) div b)"
  by (simp add: quo_def)

lemma rem_neg: "a < 0 \<Longrightarrow> 0 < b \<Longrightarrow> rem a b = - ((- a) mod b)"
  by (simp add: rem_def)

lemma quo_rem: "0 < b \<Longrightarrow> quo a b * b + rem a b = a"
proof (cases "a < 0")
  case True
  assume "0 < b"
  have e: "- a div b * b + - a mod b = - a" by (rule div_mult_mod_eq)
  then have "- (- a div b * b) - (- a mod b) = a" by linarith
  with True \<open>0 < b\<close> show ?thesis
    by (simp add: quo_neg rem_neg)
next
  case False
  assume "0 < b"
  with False show ?thesis
    by (simp add: quo_pos rem_pos)
qed














section \<open>The delay line of the text handler\<close>




end
